theory Spec2Isabelle
  imports Main
begin

section \<open>JSON values\<close>

text \<open>The bodies the handlers of \<^verbatim>\<open>src/app.py\<close> return: Python lists and dicts of
  plain values, which Flask renders as JSON.\<close>

datatype json =
    JNull
  | JBool bool
  | JInt int
  | JStr string
  | JArr "json list"
  | JObj "(string \<times> json) list"

definition jsonify :: "json \<Rightarrow> json" where
  "jsonify v = v"

section \<open>Data model\<close>

text \<open>Modelled from the spec: \<^verbatim>\<open>models.py\<close> (the classes User, People, Vehicles, Planets and
  Favorites, imported at line 11 of \<^verbatim>\<open>app.py\<close>) is not among the source files. Section 3 of
  the specification gives a user a numeric id, an email, a password and an active flag; the
  three reference entities a numeric id, a name and descriptive fields; a favorite a numeric
  id and three optional foreign keys. Ids are natural numbers: the \<^verbatim>\<open><int:...>\<close> converter of
  the routes accepts digits only.\<close>

record User =
  u_id :: nat
  email :: string
  password :: string
  is_active :: bool

record Entity =
  e_id :: nat
  name :: string
  details :: "(string \<times> json) list"

record Favorites =
  fav_id :: nat
  people_id :: "nat option"
  vehicles_id :: "nat option"
  planets_id :: "nat option"

record database =
  user_tbl :: "User list"
  people_tbl :: "Entity list"
  vehicles_tbl :: "Entity list"
  planets_tbl :: "Entity list"
  favorites_tbl :: "Favorites list"

definition opt_int :: "nat option \<Rightarrow> json" where
  "opt_int v = (case v of None \<Rightarrow> JNull | Some n \<Rightarrow> JInt (int n))"

text \<open>Modelled from the spec: the serialisation methods of \<^verbatim>\<open>models.py\<close>. Section 4.2: every
  entity converts to a mapping from field name to value, with a fixed field set, the primary
  key always included and foreign keys given as raw ids. \<^verbatim>\<open>app.py\<close> calls this conversion
  \<^verbatim>\<open>serialize\<close>, \<^verbatim>\<open>to_json\<close> and \<^verbatim>\<open>to_jason\<close>; the specification describes one
  conversion per entity, so the three names denote the same function here.\<close>

text \<open>Modelled from the spec: the conversion of a user row (section 4.2), absent with
  \<^verbatim>\<open>models.py\<close>.\<close>

definition User_serialize :: "User \<Rightarrow> json" where
  "User_serialize u =
     JObj [(''id'', JInt (int (u_id u))), (''email'', JStr (email u)),
           (''password'', JStr (password u)), (''is_active'', JBool (is_active u))]"

definition User_to_json :: "User \<Rightarrow> json" where
  "User_to_json u = User_serialize u"

text \<open>Modelled from the spec: the conversion of a people, vehicles or planets row (section
  4.2), absent with \<^verbatim>\<open>models.py\<close>.\<close>

definition Entity_serialize :: "Entity \<Rightarrow> json" where
  "Entity_serialize e =
     JObj ((''id'', JInt (int (e_id e))) # (''name'', JStr (name e)) # details e)"

definition Entity_to_jason :: "Entity \<Rightarrow> json" where
  "Entity_to_jason e = Entity_serialize e"

text \<open>Modelled from the spec: the conversion of a favorites row (section 4.2), absent with
  \<^verbatim>\<open>models.py\<close>; the foreign keys are given as raw ids, \<^verbatim>\<open>null\<close> when unset.\<close>

definition Favorites_serialize :: "Favorites \<Rightarrow> json" where
  "Favorites_serialize f =
     JObj [(''id'', JInt (int (fav_id f))), (''people_id'', opt_int (people_id f)),
           (''vehicles_id'', opt_int (vehicles_id f)), (''planets_id'', opt_int (planets_id f))]"

definition Favorites_to_json :: "Favorites \<Rightarrow> json" where
  "Favorites_to_json f = Favorites_serialize f"

section \<open>Data access\<close>

text \<open>The object-relational calls of \<^verbatim>\<open>app.py\<close>, as section 4.1 of the specification
  describes them. \<^verbatim>\<open>Model.query.all()\<close> returns every row; \<^verbatim>\<open>Model.query.get(i)\<close> returns
  the row whose primary key is \<open>i\<close>, or \<^verbatim>\<open>None\<close>; \<^verbatim>\<open>db.session.add\<close> followed by
  \<^verbatim>\<open>commit\<close> inserts a row under a primary key assigned by the database;
  \<^verbatim>\<open>db.session.delete\<close> followed by \<^verbatim>\<open>commit\<close> removes the row of that primary key.\<close>

definition query_all :: "'r list \<Rightarrow> 'r list" where
  "query_all tbl = tbl"

definition query_get :: "('r \<Rightarrow> nat) \<Rightarrow> 'r list \<Rightarrow> nat \<Rightarrow> 'r option" where
  "query_get pk tbl i = find (\<lambda>r. pk r = i) tbl"

text \<open>Modelled from the spec: the primary key of a new row is assigned by the database
  (section 4.1, Create). The default store of \<^verbatim>\<open>app.py\<close> (line 40, SQLite) assigns one more
  than the largest key of the table.\<close>

definition next_pk :: "('r \<Rightarrow> nat) \<Rightarrow> 'r list \<Rightarrow> nat" where
  "next_pk pk tbl = Suc (fold max (map pk tbl) 0)"

definition session_add_favorite :: "Favorites \<Rightarrow> database \<Rightarrow> Favorites \<times> database" where
  "session_add_favorite f db =
     (let stored = f\<lparr>fav_id := next_pk fav_id (favorites_tbl db)\<rparr>
      in (stored, db\<lparr>favorites_tbl := favorites_tbl db @ [stored]\<rparr>))"

definition session_delete_favorite :: "Favorites \<Rightarrow> database \<Rightarrow> database" where
  "session_delete_favorite f db =
     db\<lparr>favorites_tbl := filter (\<lambda>r. fav_id r \<noteq> fav_id f) (favorites_tbl db)\<rparr>"

text \<open>The constructor call \<^verbatim>\<open>Favorites(people_id=...)\<close> and its two siblings: the columns
  not named stay unset, and the primary key is unset until the row is committed (the value
  given here is replaced by \<^const>\<open>session_add_favorite\<close>).\<close>

definition new_Favorites :: "nat option \<Rightarrow> nat option \<Rightarrow> nat option \<Rightarrow> Favorites" where
  "new_Favorites p v pl = \<lparr>fav_id = 0, people_id = p, vehicles_id = v, planets_id = pl\<rparr>"

section \<open>Exceptions\<close>

text \<open>Modelled from the spec: \<^verbatim>\<open>utils.py\<close> (the class APIException, imported at line 9) is
  not among the source files. Section 4.3: an API exception carries a message and an HTTP
  status code, 400 when none is given, and is serialised as
  \<^verbatim>\<open>{message, status_code: ...}\<close>.\<close>

record APIException =
  message :: string
  status_code :: nat

text \<open>Modelled from the spec: the constructor of the exception, absent with \<^verbatim>\<open>utils.py\<close>;
  the status code is 400 when none is given (section 4.3).\<close>

definition new_APIException :: "string \<Rightarrow> nat option \<Rightarrow> APIException" where
  "new_APIException msg code =
     \<lparr>message = msg, status_code = (case code of None \<Rightarrow> 400 | Some c \<Rightarrow> c)\<rparr>"

text \<open>Modelled from the spec: the method \<^verbatim>\<open>to_dict\<close> of the exception, absent with
  \<^verbatim>\<open>utils.py\<close>; section 4.3 gives the serialised form as the message and the status code.\<close>

definition to_dict :: "APIException \<Rightarrow> json" where
  "to_dict e = JObj [(''message'', JStr (message e)), (''status_code'', JInt (int (status_code e)))]"

text \<open>What a view function can raise: the typed API exception, and the two untyped Python
  errors that occur in \<^verbatim>\<open>app.py\<close>: \<^verbatim>\<open>AttributeError\<close>, when a method is called on
  \<^verbatim>\<open>None\<close>, and \<^verbatim>\<open>TypeError\<close>, when a function is called with a keyword argument that is
  not one of its parameters. \<^verbatim>\<open>MethodNotAllowed\<close> is the framework's own exception for a
  method the route does not list.\<close>

datatype exn =
    APIExc APIException
  | AttributeError string
  | TypeError string
  | MethodNotAllowed

type_synonym view_result = "(exn + json \<times> nat) \<times> database"

section \<open>Request handlers\<close>

text \<open>The request methods that the routes of \<^verbatim>\<open>app.py\<close> list.\<close>

datatype meth = GET | POST | DELETE

definition handle_invalid_usage :: "APIException \<Rightarrow> json \<times> nat" where
  "handle_invalid_usage error = (jsonify (to_dict error), status_code error)"

definition get_users :: "database \<Rightarrow> view_result" where
  "get_users db =
     (let users = query_all (user_tbl db)
      in (Inr (JArr (map User_to_json users), 200), db))"

definition get_single_user :: "nat \<Rightarrow> database \<Rightarrow> view_result" where
  "get_single_user user_id db =
     (case query_get u_id (user_tbl db) user_id of
        None \<Rightarrow> (Inl (AttributeError ''serialize''), db)
      | Some user \<Rightarrow> (Inr (jsonify (User_serialize user), 200), db))"

definition get_favorites :: "database \<Rightarrow> view_result" where
  "get_favorites db =
     (let favorites = query_all (favorites_tbl db)
      in (Inr (JArr (map Favorites_to_json favorites), 200), db))"

definition post_or_delete_favorite_person :: "meth \<Rightarrow> nat \<Rightarrow> database \<Rightarrow> view_result" where
  "post_or_delete_favorite_person request_method person_id db =
     (if request_method = POST then
        (let (favorite, db') = session_add_favorite (new_Favorites (Some person_id) None None) db
         in (Inr (jsonify (Favorites_serialize favorite), 200), db'))
      else
        (case query_get fav_id (favorites_tbl db) person_id of
           None \<Rightarrow> (Inl (APIExc (new_APIException ''User not found'' (Some 404))), db)
         | Some favorite \<Rightarrow>
             (Inr (jsonify (Favorites_serialize favorite), 200),
              session_delete_favorite favorite db)))"

definition post_or_delete_favorite_vehicle :: "meth \<Rightarrow> nat \<Rightarrow> database \<Rightarrow> view_result" where
  "post_or_delete_favorite_vehicle request_method vehicle_id db =
     (if request_method = POST then
        (let (favorite, db') = session_add_favorite (new_Favorites None (Some vehicle_id) None) db
         in (Inr (jsonify (Favorites_serialize favorite), 200), db'))
      else
        (case query_get fav_id (favorites_tbl db) vehicle_id of
           None \<Rightarrow> (Inl (APIExc (new_APIException ''User not found'' (Some 404))), db)
         | Some favorite \<Rightarrow>
             (Inr (jsonify (Favorites_serialize favorite), 200),
              session_delete_favorite favorite db)))"

definition post_or_delete_favorite_planet :: "meth \<Rightarrow> nat \<Rightarrow> database \<Rightarrow> view_result" where
  "post_or_delete_favorite_planet request_method planet_id db =
     (if request_method = POST then
        (let (favorite, db') = session_add_favorite (new_Favorites None None (Some planet_id)) db
         in (Inr (jsonify (Favorites_serialize favorite), 200), db'))
      else
        (case query_get fav_id (favorites_tbl db) planet_id of
           None \<Rightarrow> (Inl (APIExc (new_APIException ''User not found'' (Some 404))), db)
         | Some favorite \<Rightarrow>
             (Inr (jsonify (Favorites_serialize favorite), 200),
              session_delete_favorite favorite db)))"

definition get_people :: "database \<Rightarrow> view_result" where
  "get_people db =
     (let people = query_all (people_tbl db)
      in (Inr (JArr (map Entity_to_jason people), 200), db))"

definition get_single_person :: "nat \<Rightarrow> database \<Rightarrow> view_result" where
  "get_single_person person_id db =
     (case query_get e_id (people_tbl db) person_id of
        None \<Rightarrow> (Inl (AttributeError ''serialize''), db)
      | Some person \<Rightarrow> (Inr (jsonify (Entity_serialize person), 200), db))"

definition get_vehicles :: "database \<Rightarrow> view_result" where
  "get_vehicles db =
     (let vehicles = query_all (vehicles_tbl db)
      in (Inr (JArr (map Entity_to_jason vehicles), 200), db))"

definition get_single_vehicle :: "nat \<Rightarrow> database \<Rightarrow> view_result" where
  "get_single_vehicle vehicle_id db =
     (case query_get e_id (vehicles_tbl db) vehicle_id of
        None \<Rightarrow> (Inl (AttributeError ''serialize''), db)
      | Some vehicle \<Rightarrow> (Inr (jsonify (Entity_serialize vehicle), 200), db))"

definition get_planets :: "database \<Rightarrow> view_result" where
  "get_planets db =
     (let planets = query_all (planets_tbl db)
      in (Inr (JArr (map Entity_to_jason planets), 200), db))"

definition get_single_planet :: "nat \<Rightarrow> database \<Rightarrow> view_result" where
  "get_single_planet planet_id db =
     (case query_get e_id (planets_tbl db) planet_id of
        None \<Rightarrow> (Inl (AttributeError ''serialize''), db)
      | Some planet \<Rightarrow> (Inr (jsonify (Entity_serialize planet), 200), db))"

section \<open>Routing and dispatch\<close>

text \<open>The URL rules of the \<^verbatim>\<open>@app.route\<close> decorators, each with the values of its path
  variables. The sitemap route \<^verbatim>\<open>/\<close> is left out: \<^verbatim>\<open>generate_sitemap\<close> is not among the
  source files.\<close>

datatype rule =
    R_users
  | R_single_user nat
  | R_favorites nat
  | R_favorite_person nat nat
  | R_favorite_vehicle nat nat
  | R_favorite_planet nat nat
  | R_people
  | R_single_person nat
  | R_vehicles
  | R_single_vehicle nat
  | R_planets
  | R_single_planet nat

text \<open>The methods a rule lists (\<^verbatim>\<open>GET\<close> when the decorator gives none).\<close>

fun methods :: "rule \<Rightarrow> meth list" where
  "methods (R_favorite_person _ _) = [POST, DELETE]"
| "methods (R_favorite_vehicle _ _) = [POST, DELETE]"
| "methods (R_favorite_planet _ _) = [POST, DELETE]"
| "methods _ = [GET]"

text \<open>The path variables a rule declares, by name: the framework passes them to the view
  function as keyword arguments.\<close>

fun view_args :: "rule \<Rightarrow> (string \<times> nat) list" where
  "view_args R_users = []"
| "view_args (R_single_user i) = [(''user_id'', i)]"
| "view_args (R_favorites u) = [(''user_id'', u)]"
| "view_args (R_favorite_person u i) = [(''user_id'', u), (''person_id'', i)]"
| "view_args (R_favorite_vehicle u i) = [(''user_id'', u), (''vehicle_id'', i)]"
| "view_args (R_favorite_planet u i) = [(''user_id'', u), (''planet_id'', i)]"
| "view_args R_people = []"
| "view_args (R_single_person i) = [(''person_id'', i)]"
| "view_args R_vehicles = []"
| "view_args (R_single_vehicle i) = [(''vehicle_id'', i)]"
| "view_args R_planets = []"
| "view_args (R_single_planet i) = [(''planet_id'', i)]"

text \<open>A Python call \<^verbatim>\<open>f(**kwargs)\<close> of a function whose parameters are \<open>params\<close>: every
  keyword must name a parameter and every parameter must receive a value; otherwise the call
  raises \<^verbatim>\<open>TypeError\<close> before the body runs. The result is the parameters' values in the
  order of the \<^verbatim>\<open>def\<close>.\<close>

definition bind_kwargs :: "string list \<Rightarrow> (string \<times> nat) list \<Rightarrow> nat list option" where
  "bind_kwargs params kwargs =
     (if list_all (\<lambda>kv. fst kv \<in> set params) kwargs
      then those (map (map_of kwargs) params) else None)"

text \<open>The view functions as their \<^verbatim>\<open>def\<close> lines declare them: the parameter list of each
  is the one written in the source.\<close>

fun view_functions :: "meth \<Rightarrow> rule \<Rightarrow> (string \<times> nat) list \<Rightarrow> database \<Rightarrow> view_result" where
  "view_functions m R_users kw db =
     (case bind_kwargs [] kw of
        Some [] \<Rightarrow> get_users db
      | _ \<Rightarrow> (Inl (TypeError ''get_users''), db))"
| "view_functions m (R_single_user _) kw db =
     (case bind_kwargs [''user_id''] kw of
        Some [user_id] \<Rightarrow> get_single_user user_id db
      | _ \<Rightarrow> (Inl (TypeError ''get_single_user''), db))"
| "view_functions m (R_favorites _) kw db =
     (case bind_kwargs [] kw of
        Some [] \<Rightarrow> get_favorites db
      | _ \<Rightarrow> (Inl (TypeError ''get_favorites''), db))"
| "view_functions m (R_favorite_person _ _) kw db =
     (case bind_kwargs [''person_id''] kw of
        Some [person_id] \<Rightarrow> post_or_delete_favorite_person m person_id db
      | _ \<Rightarrow> (Inl (TypeError ''post_or_delete_favorite_person''), db))"
| "view_functions m (R_favorite_vehicle _ _) kw db =
     (case bind_kwargs [''vehicle_id''] kw of
        Some [vehicle_id] \<Rightarrow> post_or_delete_favorite_vehicle m vehicle_id db
      | _ \<Rightarrow> (Inl (TypeError ''post_or_delete_favorite_vehicle''), db))"
| "view_functions m (R_favorite_planet _ _) kw db =
     (case bind_kwargs [''planet_id''] kw of
        Some [planet_id] \<Rightarrow> post_or_delete_favorite_planet m planet_id db
      | _ \<Rightarrow> (Inl (TypeError ''post_or_delete_favorite_planet''), db))"
| "view_functions m R_people kw db =
     (case bind_kwargs [] kw of
        Some [] \<Rightarrow> get_people db
      | _ \<Rightarrow> (Inl (TypeError ''get_people''), db))"
| "view_functions m (R_single_person _) kw db =
     (case bind_kwargs [''person_id''] kw of
        Some [person_id] \<Rightarrow> get_single_person person_id db
      | _ \<Rightarrow> (Inl (TypeError ''get_single_person''), db))"
| "view_functions m R_vehicles kw db =
     (case bind_kwargs [] kw of
        Some [] \<Rightarrow> get_vehicles db
      | _ \<Rightarrow> (Inl (TypeError ''get_vehicles''), db))"
| "view_functions m (R_single_vehicle _) kw db =
     (case bind_kwargs [''vehicle_id''] kw of
        Some [vehicle_id] \<Rightarrow> get_single_vehicle vehicle_id db
      | _ \<Rightarrow> (Inl (TypeError ''get_single_vehicle''), db))"
| "view_functions m R_planets kw db =
     (case bind_kwargs [] kw of
        Some [] \<Rightarrow> get_planets db
      | _ \<Rightarrow> (Inl (TypeError ''get_planets''), db))"
| "view_functions m (R_single_planet _) kw db =
     (case bind_kwargs [''planet_id''] kw of
        Some [planet_id] \<Rightarrow> get_single_planet planet_id db
      | _ \<Rightarrow> (Inl (TypeError ''get_single_planet''), db))"

definition dispatch_request :: "meth \<Rightarrow> rule \<Rightarrow> database \<Rightarrow> view_result" where
  "dispatch_request m r db =
     (if m \<in> set (methods r) then view_functions m r (view_args r) db
      else (Inl MethodNotAllowed, db))"

text \<open>What the client receives: the JSON body and status a view (or the registered error
  handler) returned, or an error page the framework generates itself.\<close>

datatype http_response =
    Http json nat
  | HttpError nat

fun status_of :: "http_response \<Rightarrow> nat" where
  "status_of (Http _ s) = s"
| "status_of (HttpError s) = s"

text \<open>The handling of an exception that leaves a view: \<^verbatim>\<open>@app.errorhandler(APIException)\<close>
  registers \<^const>\<open>handle_invalid_usage\<close> for the typed exception; no handler is registered
  for anything else, so an untyped error becomes the framework's generic 500 response.\<close>

fun handle_user_exception :: "exn \<Rightarrow> http_response" where
  "handle_user_exception (APIExc e) = (case handle_invalid_usage e of (body, status) \<Rightarrow> Http body status)"
| "handle_user_exception MethodNotAllowed = HttpError 405"
| "handle_user_exception (AttributeError _) = HttpError 500"
| "handle_user_exception (TypeError _) = HttpError 500"

definition finalize_request :: "view_result \<Rightarrow> http_response \<times> database" where
  "finalize_request res =
     (case res of
        (Inr (body, status), db') \<Rightarrow> (Http body status, db')
      | (Inl e, db') \<Rightarrow> (handle_user_exception e, db'))"

definition full_dispatch_request :: "meth \<Rightarrow> rule \<Rightarrow> database \<Rightarrow> http_response \<times> database" where
  "full_dispatch_request m r db = finalize_request (dispatch_request m r db)"

section \<open>Example databases\<close>

text \<open>Two concrete states on which the theorems below are instantiated. In the second one
  the favorite of primary key 1 refers to person 5, and the favorite of primary key 5 to
  person 9.\<close>

definition db_empty :: database where
  "db_empty = \<lparr>user_tbl = [], people_tbl = [], vehicles_tbl = [], planets_tbl = [], favorites_tbl = []\<rparr>"

definition db_sample :: database where
  "db_sample =
     \<lparr>user_tbl = [\<lparr>u_id = 1, email = ''a@b.c'', password = ''pw'', is_active = True\<rparr>],
      people_tbl = [\<lparr>e_id = 5, name = ''Luke'', details = []\<rparr>, \<lparr>e_id = 9, name = ''Leia'', details = []\<rparr>],
      vehicles_tbl = [\<lparr>e_id = 4, name = ''Sand Crawler'', details = []\<rparr>],
      planets_tbl = [],
      favorites_tbl = [\<lparr>fav_id = 1, people_id = Some 5, vehicles_id = None, planets_id = None\<rparr>,
                       \<lparr>fav_id = 5, people_id = Some 9, vehicles_id = None, planets_id = None\<rparr>]\<rparr>"

text \<open>The length of a JSON array body.\<close>

fun array_length :: "json \<Rightarrow> nat option" where
  "array_length (JArr xs) = Some (length xs)"
| "array_length _ = None"

section \<open>Properties of the data access layer\<close>

lemma fold_max_ge_init: "a \<le> fold max xs (a::nat)"
proof (induction xs arbitrary: a)
  case Nil
  then show ?case by simp
next
  case (Cons y ys)
  have "a \<le> max y a" by simp
  also have "\<dots> \<le> fold max ys (max y a)" by (rule Cons.IH)
  finally show ?case by simp
qed

lemma fold_max_ge_elem: "x \<in> set xs \<Longrightarrow> x \<le> fold max xs (a::nat)"
proof (induction xs arbitrary: a)
  case Nil
  then show ?case by simp
next
  case (Cons y ys)
  show ?case
  proof (cases "x = y")
    case True
    have "y \<le> max y a" by simp
    also have "\<dots> \<le> fold max ys (max y a)" by (rule fold_max_ge_init)
    finally show ?thesis using True by simp
  next
    case False
    with Cons.prems have "x \<in> set ys" by simp
    then show ?thesis using Cons.IH by simp
  qed
qed

lemma next_pk_fresh: "r \<in> set tbl \<Longrightarrow> pk r < next_pk pk tbl"
  unfolding next_pk_def using fold_max_ge_elem [of "pk r" "map pk tbl" 0] by simp

lemma find_fresh: "\<forall>r \<in> set tbl. pk r \<noteq> k \<Longrightarrow> pk x = k \<Longrightarrow> find (\<lambda>r. pk r = k) (tbl @ [x]) = Some x"
  by (induction tbl) auto

lemma filter_fresh: "\<forall>r \<in> set tbl. pk r \<noteq> k \<Longrightarrow> pk x = k \<Longrightarrow> filter (\<lambda>r. pk r \<noteq> k) (tbl @ [x]) = tbl"
  by (induction tbl) auto

lemma find_none_filter: "find (\<lambda>r. pk r = k) tbl = None \<Longrightarrow> filter (\<lambda>r. pk r \<noteq> k) tbl = tbl"
  by (induction tbl) (auto split: if_splits)

lemma find_some_pk: "find (\<lambda>r. pk r = k) tbl = Some f \<Longrightarrow> pk f = k"
  by (induction tbl) (auto split: if_splits)

section \<open>The bodies of the favorites handlers\<close>

text \<open>What each handler computes once it is entered with its declared parameter.\<close>

lemma delete_branch_person:
  "post_or_delete_favorite_person DELETE t db =
     (case query_get fav_id (favorites_tbl db) t of
        None \<Rightarrow> Inl (APIExc \<lparr>message = ''User not found'', status_code = 404\<rparr>)
      | Some f \<Rightarrow> Inr (Favorites_serialize f, 200),
      db\<lparr>favorites_tbl := filter (\<lambda>r. fav_id r \<noteq> t) (favorites_tbl db)\<rparr>)"
proof (cases "query_get fav_id (favorites_tbl db) t")
  case None
  then have "filter (\<lambda>r. fav_id r \<noteq> t) (favorites_tbl db) = favorites_tbl db"
    unfolding query_get_def by (rule find_none_filter)
  with None show ?thesis
    by (simp add: post_or_delete_favorite_person_def new_APIException_def)
next
  case (Some f)
  then have "fav_id f = t"
    unfolding query_get_def by (rule find_some_pk)
  with Some show ?thesis
    by (simp add: post_or_delete_favorite_person_def jsonify_def session_delete_favorite_def)
qed

lemma post_branch_person:
  "post_or_delete_favorite_person POST pid db =
     (Inr (Favorites_serialize \<lparr>fav_id = next_pk fav_id (favorites_tbl db), people_id = Some pid, vehicles_id = None, planets_id = None\<rparr>, 200),
      db\<lparr>favorites_tbl := favorites_tbl db @ [\<lparr>fav_id = next_pk fav_id (favorites_tbl db), people_id = Some pid, vehicles_id = None, planets_id = None\<rparr>]\<rparr>)"
  by (simp add: post_or_delete_favorite_person_def session_add_favorite_def new_Favorites_def jsonify_def Let_def)

lemma roundtrip_body:
  "post_or_delete_favorite_person DELETE (next_pk fav_id (favorites_tbl db))
       (snd (post_or_delete_favorite_person POST pid db))
   = (Inr (Favorites_serialize \<lparr>fav_id = next_pk fav_id (favorites_tbl db), people_id = Some pid, vehicles_id = None, planets_id = None\<rparr>, 200), db)"
proof -
  let ?k = "next_pk fav_id (favorites_tbl db)"
  have fresh: "\<forall>r \<in> set (favorites_tbl db). fav_id r \<noteq> ?k"
    using next_pk_fresh [of _ "favorites_tbl db" fav_id] by fastforce
  show ?thesis
    by (simp add: post_branch_person delete_branch_person query_get_def
          find_fresh [OF fresh] filter_fresh [OF fresh] del: filter_append)
qed

lemma delete_branch_vehicle:
  "post_or_delete_favorite_vehicle DELETE t db = post_or_delete_favorite_person DELETE t db"
  by (simp add: post_or_delete_favorite_vehicle_def post_or_delete_favorite_person_def)

lemma delete_branch_planet:
  "post_or_delete_favorite_planet DELETE t db = post_or_delete_favorite_person DELETE t db"
  by (simp add: post_or_delete_favorite_planet_def post_or_delete_favorite_person_def)

lemma post_branch_vehicle:
  "post_or_delete_favorite_vehicle POST vid db =
     (Inr (Favorites_serialize \<lparr>fav_id = next_pk fav_id (favorites_tbl db), people_id = None, vehicles_id = Some vid, planets_id = None\<rparr>, 200),
      db\<lparr>favorites_tbl := favorites_tbl db @ [\<lparr>fav_id = next_pk fav_id (favorites_tbl db), people_id = None, vehicles_id = Some vid, planets_id = None\<rparr>]\<rparr>)"
  by (simp add: post_or_delete_favorite_vehicle_def session_add_favorite_def new_Favorites_def jsonify_def Let_def)

lemma post_branch_planet:
  "post_or_delete_favorite_planet POST plid db =
     (Inr (Favorites_serialize \<lparr>fav_id = next_pk fav_id (favorites_tbl db), people_id = None, vehicles_id = None, planets_id = Some plid\<rparr>, 200),
      db\<lparr>favorites_tbl := favorites_tbl db @ [\<lparr>fav_id = next_pk fav_id (favorites_tbl db), people_id = None, vehicles_id = None, planets_id = Some plid\<rparr>]\<rparr>)"
  by (simp add: post_or_delete_favorite_planet_def session_add_favorite_def new_Favorites_def jsonify_def Let_def)

lemma get_favorites_body:
  "get_favorites db = (Inr (JArr (map Favorites_to_json (favorites_tbl db)), 200), db)"
  by (simp add: get_favorites_def query_all_def)

lemma post_then_list_body:
  "\<exists>f \<in> set (favorites_tbl (snd (post_or_delete_favorite_person POST pid db))).
      people_id f = Some pid \<and>
      Favorites_to_json f \<in> set (map Favorites_to_json
        (favorites_tbl (snd (post_or_delete_favorite_person POST pid db))))"
  by (simp add: post_branch_person)

section \<open>Dispatch of the favorites routes\<close>

text \<open>Every rule under \<^verbatim>\<open>/users/<int:user_id>/favorites\<close> declares the path variable
  \<^verbatim>\<open>user_id\<close>, and none of the four view functions bound to these rules has a parameter of
  that name (lines 108 to 109, 114 to 115, 130 to 131 and 146 to 147): the call of the view
  raises \<^verbatim>\<open>TypeError\<close> before its body runs, for every user id, target id and database.
  Nothing in \<^verbatim>\<open>app.py\<close> removes the variable from the arguments before the call.\<close>

lemma favorites_route_faults:
  "dispatch_request GET (R_favorites u) db = (Inl (TypeError ''get_favorites''), db)"
  by (simp add: dispatch_request_def bind_kwargs_def)

lemma favorite_person_route_faults:
  "m \<noteq> GET \<Longrightarrow> dispatch_request m (R_favorite_person u i) db =
     (Inl (TypeError ''post_or_delete_favorite_person''), db)"
  by (cases m) (simp_all add: dispatch_request_def bind_kwargs_def)

lemma favorite_vehicle_route_faults:
  "m \<noteq> GET \<Longrightarrow> dispatch_request m (R_favorite_vehicle u i) db =
     (Inl (TypeError ''post_or_delete_favorite_vehicle''), db)"
  by (cases m) (simp_all add: dispatch_request_def bind_kwargs_def)

lemma favorite_planet_route_faults:
  "m \<noteq> GET \<Longrightarrow> dispatch_request m (R_favorite_planet u i) db =
     (Inl (TypeError ''post_or_delete_favorite_planet''), db)"
  by (cases m) (simp_all add: dispatch_request_def bind_kwargs_def)

lemma finalize_untyped:
  "finalize_request (Inl (TypeError s), db) = (HttpError 500, db)"
  "finalize_request (Inl (AttributeError s), db) = (HttpError 500, db)"
  by (simp_all add: finalize_request_def)

section \<open>Claims\<close>

text \<open>C1. A DELETE request to \<^verbatim>\<open>/users/{id}/favorites/people/{pid}\<close> where no favorite has
  primary key \<open>pid\<close> should be answered with status 404 and the message of the typed
  exception. On the sample database, which has no favorite of primary key 7, the request
  \<^verbatim>\<open>DELETE /users/1/favorites/people/7\<close> never reaches the lookup: the call of the view
  function raises \<^verbatim>\<open>TypeError\<close>, and the client receives the generic status 500.\<close>

theorem C1_delete_absent_favorite_request:
  "query_get fav_id (favorites_tbl db_sample) 7 = None \<and>
   full_dispatch_request DELETE (R_favorite_person 1 7) db_sample = (HttpError 500, db_sample) \<and>
   dispatch_request DELETE (R_favorite_person 1 7) db_sample =
     (Inl (TypeError ''post_or_delete_favorite_person''), db_sample)"
  by (simp add: full_dispatch_request_def favorite_person_route_faults finalize_untyped
        query_get_def db_sample_def)

text \<open>C2. A DELETE request to a favorites sub-route should look up and delete the favorite
  whose primary key is the target id of the path. The sample database holds a favorite of
  primary key 5; the requests \<^verbatim>\<open>DELETE /users/1/favorites/people/5\<close>,
  \<^verbatim>\<open>.../vehicles/5\<close> and \<^verbatim>\<open>.../planets/5\<close> are each answered with status 500 and leave
  the database as it was: the call of the view function raises \<^verbatim>\<open>TypeError\<close>, so no row is
  looked up and none is deleted. (The bodies would delete by primary key:
  \<open>delete_branch_person\<close>, \<open>delete_branch_vehicle\<close>, \<open>delete_branch_planet\<close>.)\<close>

theorem C2_delete_request_deletes_nothing:
  "query_get fav_id (favorites_tbl db_sample) 5 =
     Some \<lparr>fav_id = 5, people_id = Some 9, vehicles_id = None, planets_id = None\<rparr> \<and>
   full_dispatch_request DELETE (R_favorite_person 1 5) db_sample = (HttpError 500, db_sample) \<and>
   full_dispatch_request DELETE (R_favorite_vehicle 1 5) db_sample = (HttpError 500, db_sample) \<and>
   full_dispatch_request DELETE (R_favorite_planet 1 5) db_sample = (HttpError 500, db_sample) \<and>
   query_get fav_id
     (favorites_tbl (snd (full_dispatch_request DELETE (R_favorite_person 1 5) db_sample))) 5 =
     Some \<lparr>fav_id = 5, people_id = Some 9, vehicles_id = None, planets_id = None\<rparr>"
proof -
  have row: "query_get fav_id (favorites_tbl db_sample) 5 =
      Some \<lparr>fav_id = 5, people_id = Some 9, vehicles_id = None, planets_id = None\<rparr>"
    by (simp add: query_get_def db_sample_def)
  have person: "full_dispatch_request DELETE (R_favorite_person 1 5) db_sample = (HttpError 500, db_sample)"
    by (simp add: full_dispatch_request_def favorite_person_route_faults finalize_untyped)
  have vehicle: "full_dispatch_request DELETE (R_favorite_vehicle 1 5) db_sample = (HttpError 500, db_sample)"
    by (simp add: full_dispatch_request_def favorite_vehicle_route_faults finalize_untyped)
  have planet: "full_dispatch_request DELETE (R_favorite_planet 1 5) db_sample = (HttpError 500, db_sample)"
    by (simp add: full_dispatch_request_def favorite_planet_route_faults finalize_untyped)
  show ?thesis
    unfolding person vehicle planet snd_conv using row by simp
qed

text \<open>C3. A GET request to one of the four by-id endpoints with an id that matches no row:
  the handler calls \<^verbatim>\<open>serialize\<close> on the absent result without a presence check, which
  raises the untyped \<^verbatim>\<open>AttributeError\<close>; the typed API exception is not raised, and the
  client receives the generic status 500, never a 404. The tables are left as they were.\<close>

theorem C3_get_by_id_absent_faults:
  "(query_get u_id (user_tbl db) i = None \<longrightarrow>
      dispatch_request GET (R_single_user i) db = (Inl (AttributeError ''serialize''), db) \<and>
      full_dispatch_request GET (R_single_user i) db = (HttpError 500, db)) \<and>
   (query_get e_id (people_tbl db) i = None \<longrightarrow>
      dispatch_request GET (R_single_person i) db = (Inl (AttributeError ''serialize''), db) \<and>
      full_dispatch_request GET (R_single_person i) db = (HttpError 500, db)) \<and>
   (query_get e_id (vehicles_tbl db) i = None \<longrightarrow>
      dispatch_request GET (R_single_vehicle i) db = (Inl (AttributeError ''serialize''), db) \<and>
      full_dispatch_request GET (R_single_vehicle i) db = (HttpError 500, db)) \<and>
   (query_get e_id (planets_tbl db) i = None \<longrightarrow>
      dispatch_request GET (R_single_planet i) db = (Inl (AttributeError ''serialize''), db) \<and>
      full_dispatch_request GET (R_single_planet i) db = (HttpError 500, db))"
  by (simp add: full_dispatch_request_def dispatch_request_def bind_kwargs_def finalize_untyped
        get_single_user_def get_single_person_def get_single_vehicle_def get_single_planet_def)

theorem C3_get_by_id_absent_faults_witness:
  "query_get u_id (user_tbl db_sample) 3 = None \<and>
   query_get e_id (people_tbl db_sample) 3 = None \<and>
   query_get e_id (vehicles_tbl db_sample) 3 = None \<and>
   query_get e_id (planets_tbl db_sample) 3 = None \<and>
   full_dispatch_request GET (R_single_user 3) db_sample = (HttpError 500, db_sample) \<and>
   full_dispatch_request GET (R_single_person 3) db_sample = (HttpError 500, db_sample) \<and>
   full_dispatch_request GET (R_single_vehicle 3) db_sample = (HttpError 500, db_sample) \<and>
   full_dispatch_request GET (R_single_planet 3) db_sample = (HttpError 500, db_sample)"
proof -
  have h: "query_get u_id (user_tbl db_sample) 3 = None"
    "query_get e_id (people_tbl db_sample) 3 = None"
    "query_get e_id (vehicles_tbl db_sample) 3 = None"
    "query_get e_id (planets_tbl db_sample) 3 = None"
    by (simp_all add: query_get_def db_sample_def)
  show ?thesis
    using h C3_get_by_id_absent_faults [of db_sample 3] by simp
qed

text \<open>C4. A POST to \<^verbatim>\<open>/users/{uid}/favorites/people/{pid}\<close> should succeed, and the
  listing of \<^verbatim>\<open>/users/{uid}/favorites\<close> should then include a row whose \<^verbatim>\<open>people_id\<close> is
  \<open>pid\<close>. On the empty database, \<^verbatim>\<open>POST /users/1/favorites/people/2\<close> is answered with
  status 500 and stores nothing, and \<^verbatim>\<open>GET /users/1/favorites\<close> is answered with status
  500 as well: both view functions are called with the keyword \<^verbatim>\<open>user_id\<close>, which neither
  accepts. (The bodies would do what the claim says: \<open>post_then_list_body\<close>.)\<close>

theorem C4_post_then_list_request:
  "full_dispatch_request POST (R_favorite_person 1 2) db_empty = (HttpError 500, db_empty) \<and>
   full_dispatch_request GET (R_favorites 1) db_empty = (HttpError 500, db_empty)"
  by (simp add: full_dispatch_request_def favorite_person_route_faults favorites_route_faults
        finalize_untyped)

text \<open>C5. A GET request to \<^verbatim>\<open>/users/{id}/favorites\<close> should return status 200 and the
  array of all favorites. On the sample database, which has two favorites,
  \<^verbatim>\<open>GET /users/1/favorites\<close> raises \<^verbatim>\<open>TypeError\<close> in the call of \<^verbatim>\<open>get_favorites\<close>, which
  is defined without parameters, and the client receives status 500. (The body would return
  the whole table: \<open>get_favorites_body\<close>.)\<close>

theorem C5_list_favorites_request:
  "favorites_tbl db_sample \<noteq> [] \<and>
   dispatch_request GET (R_favorites 1) db_sample = (Inl (TypeError ''get_favorites''), db_sample) \<and>
   full_dispatch_request GET (R_favorites 1) db_sample = (HttpError 500, db_sample)"
  by (simp add: full_dispatch_request_def favorites_route_faults finalize_untyped db_sample_def)

text \<open>C6. Round trip: create a favorite with POST, delete it with DELETE under the primary
  key it was given, and the listing no longer shows it. On the sample database the three
  requests of the round trip are each answered with status 500, and none of them changes
  the database: no row is created, none is deleted, and no listing is returned. (The
  bodies would complete the round trip: \<open>roundtrip_body\<close>.)\<close>

theorem C6_roundtrip_request:
  "full_dispatch_request POST (R_favorite_person 1 9) db_sample = (HttpError 500, db_sample) \<and>
   full_dispatch_request DELETE (R_favorite_person 1 (next_pk fav_id (favorites_tbl db_sample)))
       db_sample = (HttpError 500, db_sample) \<and>
   full_dispatch_request GET (R_favorites 1) db_sample = (HttpError 500, db_sample)"
  by (simp add: full_dispatch_request_def favorite_person_route_faults favorites_route_faults
        finalize_untyped)

text \<open>C7. An API exception that leaves a view is passed to the registered handler
  \<^const>\<open>handle_invalid_usage\<close> and does not reach the client as a fault: the client
  receives a JSON object whose field \<^verbatim>\<open>message\<close> is the message of the exception and whose
  field \<^verbatim>\<open>status_code\<close> is its status code, and the status of the response is the status
  code of the exception. The database is the one the view left.\<close>

theorem C7_api_exception_handled:
  "finalize_request (Inl (APIExc e), db) =
     (Http (JObj [(''message'', JStr (message e)),
                  (''status_code'', JInt (int (status_code e)))]) (status_code e), db) \<and>
   handle_invalid_usage e =
     (JObj [(''message'', JStr (message e)), (''status_code'', JInt (int (status_code e)))],
      status_code e) \<and>
   status_of (fst (finalize_request (Inl (APIExc e), db))) = status_code e"
  by (simp add: finalize_request_def handle_invalid_usage_def to_dict_def jsonify_def)

theorem C7_api_exception_handled_witness:
  "finalize_request (Inl (APIExc (new_APIException ''User not found'' (Some 404))), db_empty) =
     (Http (JObj [(''message'', JStr ''User not found''), (''status_code'', JInt 404)]) 404, db_empty) \<and>
   finalize_request (Inl (APIExc (new_APIException ''Bad request'' None)), db_empty) =
     (Http (JObj [(''message'', JStr ''Bad request''), (''status_code'', JInt 400)]) 400, db_empty)"
  using C7_api_exception_handled [of "new_APIException ''User not found'' (Some 404)" db_empty]
    C7_api_exception_handled [of "new_APIException ''Bad request'' None" db_empty]
  by (simp add: new_APIException_def)

text \<open>C8. The four list endpoints \<^verbatim>\<open>/users\<close>, \<^verbatim>\<open>/people\<close>, \<^verbatim>\<open>/vehicles\<close> and
  \<^verbatim>\<open>/planets\<close> answer a GET request, in every database state, with status 200 and an array
  of the serialised rows of their table, in number equal to the rows of the table; the
  database is unchanged.\<close>

theorem C8_list_endpoints:
  "full_dispatch_request GET R_users db = (Http (JArr (map User_to_json (user_tbl db))) 200, db) \<and>
   full_dispatch_request GET R_people db = (Http (JArr (map Entity_to_jason (people_tbl db))) 200, db) \<and>
   full_dispatch_request GET R_vehicles db = (Http (JArr (map Entity_to_jason (vehicles_tbl db))) 200, db) \<and>
   full_dispatch_request GET R_planets db = (Http (JArr (map Entity_to_jason (planets_tbl db))) 200, db) \<and>
   array_length (JArr (map User_to_json (user_tbl db))) = Some (length (user_tbl db)) \<and>
   array_length (JArr (map Entity_to_jason (people_tbl db))) = Some (length (people_tbl db)) \<and>
   array_length (JArr (map Entity_to_jason (vehicles_tbl db))) = Some (length (vehicles_tbl db)) \<and>
   array_length (JArr (map Entity_to_jason (planets_tbl db))) = Some (length (planets_tbl db))"
  by (simp add: full_dispatch_request_def dispatch_request_def bind_kwargs_def finalize_request_def
        get_users_def get_people_def get_vehicles_def get_planets_def query_all_def)

theorem C8_list_endpoints_witness:
  "full_dispatch_request GET R_people db_sample =
     (Http (JArr [JObj [(''id'', JInt 5), (''name'', JStr ''Luke'')],
                  JObj [(''id'', JInt 9), (''name'', JStr ''Leia'')]]) 200, db_sample) \<and>
   length (people_tbl db_sample) = 2"
  using C8_list_endpoints [of db_sample]
  by (simp add: db_sample_def Entity_to_jason_def Entity_serialize_def)

text \<open>C9. A DELETE request to a favorites sub-route that finds no favorite of the given
  primary key should raise the typed API exception before any change to the session, and
  leave every table as it was. The sample database has no favorite of primary key 9; the
  requests \<^verbatim>\<open>DELETE /users/1/favorites/people/9\<close>, \<^verbatim>\<open>.../vehicles/9\<close> and
  \<^verbatim>\<open>.../planets/9\<close> do leave the database as it was, but what is raised is the untyped
  \<^verbatim>\<open>TypeError\<close> of the call of the view function, not the typed API exception, and the
  client receives status 500. (The bodies would raise the typed exception:
  \<open>delete_branch_person\<close>.)\<close>

theorem C9_failed_delete_request:
  "query_get fav_id (favorites_tbl db_sample) 9 = None \<and>
   dispatch_request DELETE (R_favorite_person 1 9) db_sample =
     (Inl (TypeError ''post_or_delete_favorite_person''), db_sample) \<and>
   dispatch_request DELETE (R_favorite_vehicle 1 9) db_sample =
     (Inl (TypeError ''post_or_delete_favorite_vehicle''), db_sample) \<and>
   dispatch_request DELETE (R_favorite_planet 1 9) db_sample =
     (Inl (TypeError ''post_or_delete_favorite_planet''), db_sample) \<and>
   status_of (fst (full_dispatch_request DELETE (R_favorite_person 1 9) db_sample)) = 500"
proof -
  have absent: "query_get fav_id (favorites_tbl db_sample) 9 = None"
    by (simp add: query_get_def db_sample_def)
  have status: "status_of (fst (full_dispatch_request DELETE (R_favorite_person 1 9) db_sample)) = 500"
    by (simp add: full_dispatch_request_def favorite_person_route_faults finalize_untyped)
  show ?thesis
    using absent status
    by (simp add: favorite_person_route_faults favorite_vehicle_route_faults
          favorite_planet_route_faults)
qed

text \<open>C10. A POST to \<^verbatim>\<open>/users/{uid}/favorites/people/{pid}\<close> should store a new favorite
  whose \<^verbatim>\<open>people_id\<close> is \<open>pid\<close> and whose two other foreign keys are unset, and likewise
  for the vehicles and planets routes. On the sample database, the requests
  \<^verbatim>\<open>POST /users/1/favorites/people/2\<close>, \<^verbatim>\<open>.../vehicles/2\<close> and \<^verbatim>\<open>.../planets/2\<close> are
  each answered with status 500 and store no row: the favorites table is the one before the
  request. The user id of the path is what the view function does not accept. (The bodies
  would store the row the claim describes: \<open>post_branch_person\<close>,
  \<open>post_branch_vehicle\<close>, \<open>post_branch_planet\<close>.)\<close>

theorem C10_post_request_stores_nothing:
  "full_dispatch_request POST (R_favorite_person 1 2) db_sample = (HttpError 500, db_sample) \<and>
   full_dispatch_request POST (R_favorite_vehicle 1 2) db_sample = (HttpError 500, db_sample) \<and>
   full_dispatch_request POST (R_favorite_planet 1 2) db_sample = (HttpError 500, db_sample) \<and>
   favorites_tbl (snd (full_dispatch_request POST (R_favorite_person 1 2) db_sample)) =
     [\<lparr>fav_id = 1, people_id = Some 5, vehicles_id = None, planets_id = None\<rparr>,
      \<lparr>fav_id = 5, people_id = Some 9, vehicles_id = None, planets_id = None\<rparr>]"
proof -
  have person: "full_dispatch_request POST (R_favorite_person 1 2) db_sample = (HttpError 500, db_sample)"
    by (simp add: full_dispatch_request_def favorite_person_route_faults finalize_untyped)
  have vehicle: "full_dispatch_request POST (R_favorite_vehicle 1 2) db_sample = (HttpError 500, db_sample)"
    by (simp add: full_dispatch_request_def favorite_vehicle_route_faults finalize_untyped)
  have planet: "full_dispatch_request POST (R_favorite_planet 1 2) db_sample = (HttpError 500, db_sample)"
    by (simp add: full_dispatch_request_def favorite_planet_route_faults finalize_untyped)
  show ?thesis
    unfolding person vehicle planet snd_conv by (simp add: db_sample_def)
qed

end
